theory Spec2Isabelle
  imports Main
begin

section \<open>The data of csrf.go\<close>

text \<open>
  The per-request context of csrf.go (\<^verbatim>\<open>type csrf struct\<close>): the token handed to
  templates, the id of the user and the secret both are derived from.
\<close>

record csrf =
  Token :: string
  Id :: string
  Secret :: string

text \<open>
  \<^verbatim>\<open>type Options struct\<close>. Its first field is called Secret in the source as well;
  a record field is a constant of the theory, so the fields carry the prefix \<open>opt\<close> here.
\<close>

record Options =
  optSecret :: string
  optSessionKey :: string
  optSetHeader :: bool
  optSetCookie :: bool
  optSecure :: bool

text \<open>
  What \<^verbatim>\<open>sessions.Session.Get\<close> returns is an \<^verbatim>\<open>interface{}\<close>: nil (\<open>INil\<close>) when the
  key is absent, otherwise a value of some dynamic type. csrf.go only asks whether the dynamic
  type is string, so the other types are a few representatives and a catch-all that
  names the type.
\<close>

datatype iface = INil | IString string | IInt int | IBool bool | IOther string

type_synonym Session = "string \<Rightarrow> iface"

text \<open>
  \<^verbatim>\<open>http.Cookie\<close> with the fields csrf.go fills in. Times are instants in nanoseconds
  since the epoch.
\<close>

record Cookie =
  Name :: string
  Value :: string
  Path :: string
  Domain :: string
  Expires :: int
  RawExpires :: string
  MaxAge :: int
  Secure :: bool
  HttpOnly :: bool
  Raw :: string
  Unparsed :: "string list"

text \<open>
  The part of \<^verbatim>\<open>http.Request\<close> that csrf.go reads. Header and Form are Go maps from a
  name to the list of its values, indexed by the name csrf.go passes (net/http
  canonicalises header names on both sides); Cookies are the cookies the request
  carries, in order.
\<close>

record Request =
  Method :: string
  Host :: string
  Header :: "string \<rightharpoonup> string list"
  Cookies :: "Cookie list"
  Form :: "string \<rightharpoonup> string list"

text \<open>
  What csrf.go does to the \<^verbatim>\<open>http.ResponseWriter\<close>: headers added with
  \<^verbatim>\<open>w.Header().Add\<close>, cookies handed to \<^verbatim>\<open>http.SetCookie\<close>, and replies sent with
  \<^verbatim>\<open>http.Error\<close> (the message and the status code, as passed), each in order.
\<close>

record ResponseWriter =
  headers :: "(string \<times> string) list"
  cookies :: "Cookie list"
  errors :: "(string \<times> nat) list"

definition StatusBadRequest :: nat where
  "StatusBadRequest = 400"

text \<open>\<^verbatim>\<open>Header.Get\<close> and \<^verbatim>\<open>Request.FormValue\<close>: the first value of the name, or the empty string.\<close>

definition Get :: "(string \<rightharpoonup> string list) \<Rightarrow> string \<Rightarrow> string" where
  "Get h key = (case h key of None \<Rightarrow> [] | Some [] \<Rightarrow> [] | Some (v # _) \<Rightarrow> v)"

definition FormValue :: "Request \<Rightarrow> string \<Rightarrow> string" where
  "FormValue r key = Get (Form r) key"

text \<open>\<^verbatim>\<open>Request.Cookie\<close>: the first cookie of that name; \<open>None\<close> is \<^verbatim>\<open>ErrNoCookie\<close>.\<close>

definition Request_Cookie :: "Request \<Rightarrow> string \<Rightarrow> Cookie option" where
  "Request_Cookie r name = find (\<lambda>c. Name c = name) (Cookies r)"

definition Add :: "ResponseWriter \<Rightarrow> string \<Rightarrow> string \<Rightarrow> ResponseWriter" where
  "Add w key v = w\<lparr>headers := headers w @ [(key, v)]\<rparr>"

definition SetCookie :: "ResponseWriter \<Rightarrow> Cookie \<Rightarrow> ResponseWriter" where
  "SetCookie w c = w\<lparr>cookies := cookies w @ [c]\<rparr>"

definition http_Error :: "ResponseWriter \<Rightarrow> string \<Rightarrow> nat \<Rightarrow> ResponseWriter" where
  "http_Error w msg code = w\<lparr>errors := errors w @ [(msg, code)]\<rparr>"

text \<open>
  martini stops the chain of handlers once a handler has written the response; for the
  handlers of csrf.go that is a reply through \<^verbatim>\<open>http.Error\<close>.
\<close>

definition Written :: "ResponseWriter \<Rightarrow> bool" where
  "Written w = (errors w \<noteq> [])"

section \<open>The packages csrf.go imports\<close>

text \<open>
  Package xsrftoken is not part of the sources: csrf.go calls its \<^verbatim>\<open>Generate\<close> and
  \<^verbatim>\<open>Valid\<close>, and both read the clock. They are parameters of the embedding; the
  last argument is the clock reading of the call.
\<close>

record xsrftoken =
  xsrftoken_Generate :: "string \<Rightarrow> string \<Rightarrow> string \<Rightarrow> int \<Rightarrow> string"
  xsrftoken_Valid :: "string \<Rightarrow> string \<Rightarrow> string \<Rightarrow> string \<Rightarrow> int \<Rightarrow> bool"

text \<open>
  Of package time, csrf.go uses the calendar arithmetic \<^verbatim>\<open>t.AddDate(years, months, days)\<close>
  and \<^verbatim>\<open>t.Format(layout)\<close>; both are parameters as well.
\<close>

record timepkg =
  AddDate :: "int \<Rightarrow> int \<Rightarrow> int \<Rightarrow> int \<Rightarrow> int"
  Format :: "int \<Rightarrow> string \<Rightarrow> string"

definition UnixDate :: string where
  "UnixDate = ''Mon Jan _2 15:04:05 MST 2006''"

subsection \<open>strings.Split on a one-byte separator\<close>

text \<open>
  \<^verbatim>\<open>strings.Split(s, ":")\<close>: the pieces of \<open>s\<close> between the separators; the empty
  string gives one empty piece.
\<close>

fun Split :: "string \<Rightarrow> char \<Rightarrow> string list" where
  "Split [] sep = [[]]"
| "Split (c # cs) sep =
     (if c = sep then [] # Split cs sep
      else (case Split cs sep of [] \<Rightarrow> [[c]] | p # ps \<Rightarrow> (c # p) # ps))"

text \<open>Indexing a slice panics out of range.\<close>

datatype panic = IndexOutOfRange

definition index :: "'a list \<Rightarrow> nat \<Rightarrow> panic + 'a" where
  "index xs i = (if i < length xs then Inr (xs ! i) else Inl IndexOutOfRange)"

subsection \<open>regexp.Match\<close>

text \<open>
  A regular expression as package regexp/syntax parses it, with the operators the
  pattern of csrf.go uses. A character class is a list of inclusive byte ranges.
\<close>

datatype regex =
    Literal char
  | CharClass "(char \<times> char) list"
  | BeginText
  | EndText
  | Concat regex regex
  | Alternate regex regex
  | Star regex
  | Plus regex
  | Quest regex

definition in_class :: "(char \<times> char) list \<Rightarrow> char \<Rightarrow> bool" where
  "in_class rs c =
     list_ex (\<lambda>(lo, hi). (of_char lo :: nat) \<le> of_char c \<and> (of_char c :: nat) \<le> of_char hi) rs"

text \<open>
  \<open>closure f n ps\<close>: the positions reached from \<open>ps\<close> by at most \<open>n\<close> rounds of \<open>f\<close>.
\<close>

primrec closure :: "(nat \<Rightarrow> nat list) \<Rightarrow> nat \<Rightarrow> nat list \<Rightarrow> nat list" where
  "closure f 0 ps = ps"
| "closure f (Suc n) ps = closure f n (remdups (ps @ concat (map f ps)))"

text \<open>
  \<open>ends r s i\<close>: the positions of the text \<open>s\<close> at which a match of \<open>r\<close> that starts
  at position \<open>i\<close> can end. \<open>^\<close> and \<open>$\<close> are the beginning and the end of the text
  (no flag of the pattern makes them match at lines). A position never exceeds
  \<open>length s\<close>, so \<open>Suc (length s)\<close> rounds exhaust a repetition.
\<close>

primrec ends :: "regex \<Rightarrow> string \<Rightarrow> nat \<Rightarrow> nat list" where
  "ends (Literal c) s = (\<lambda>i. if i < length s \<and> s ! i = c then [Suc i] else [])"
| "ends (CharClass rs) s = (\<lambda>i. if i < length s \<and> in_class rs (s ! i) then [Suc i] else [])"
| "ends BeginText s = (\<lambda>i. if i = 0 then [i] else [])"
| "ends EndText s = (\<lambda>i. if i = length s then [i] else [])"
| "ends (Concat r1 r2) s = (\<lambda>i. concat (map (ends r2 s) (ends r1 s i)))"
| "ends (Alternate r1 r2) s = (\<lambda>i. ends r1 s i @ ends r2 s i)"
| "ends (Star r) s = (\<lambda>i. closure (ends r s) (Suc (length s)) [i])"
| "ends (Plus r) s = (\<lambda>i. closure (ends r s) (Suc (length s)) (ends r s i))"
| "ends (Quest r) s = (\<lambda>i. i # ends r s i)"

text \<open>\<^verbatim>\<open>regexp.Match\<close>: does the text contain a match, starting anywhere.\<close>

definition Match :: "regex \<Rightarrow> string \<Rightarrow> bool" where
  "Match r s = list_ex (\<lambda>i. ends r s i \<noteq> []) [0 ..< Suc (length s)]"

text \<open>
  The pattern of csrf.go is the raw string
  \<^verbatim>\<open>/^\.?[a-z\d]+(?:(?:[a-z\d]*)|(?:[a-z\d\-]*[a-z\d]))(?:\.[a-z\d]+(?:(?:[a-z\d]*)|(?:[a-z\d\-]*[a-z\d])))*$/\<close>.
  In Go's syntax the two slashes are literal characters of the pattern. \<open>label\<close> is
  \<^verbatim>\<open>[a-z\d]+(?:(?:[a-z\d]*)|(?:[a-z\d\-]*[a-z\d]))\<close>, which occurs twice, and \<open>shape e\<close>
  is \<^verbatim>\<open>\.?\<close>, a label and \<^verbatim>\<open>(?:\.label)*\<close>, followed by \<open>e\<close>. csrf.go passes the
  pattern to \<^verbatim>\<open>regexp.Match\<close> as text on every request; \<open>domainReg\<close> is the expression
  it compiles to. (Were the pattern refused by the compiler, \<^verbatim>\<open>regexp.Match\<close> would return
  an error, which csrf.go treats like a failed match.)
\<close>

definition alnum :: regex where
  "alnum = CharClass [(CHR ''a'', CHR ''z''), (CHR ''0'', CHR ''9'')]"

definition alnumdash :: regex where
  "alnumdash = CharClass [(CHR ''a'', CHR ''z''), (CHR ''0'', CHR ''9''), (CHR ''-'', CHR ''-'')]"

definition label :: regex where
  "label = Concat (Plus alnum) (Alternate (Star alnum) (Concat (Star alnumdash) alnum))"

definition shape :: "regex \<Rightarrow> regex" where
  "shape e =
     Concat (Quest (Literal CHR ''.''))
       (Concat label (Concat (Star (Concat (Literal CHR ''.'') label)) e))"

definition domainReg :: regex where
  "domainReg =
     Concat (Literal CHR ''/'') (Concat BeginText (shape (Concat EndText (Literal CHR ''/''))))"

text \<open>What stands between the slashes, for comparison.\<close>

definition hostname :: regex where
  "hostname = Concat BeginText (shape EndText)"

section \<open>csrf.go\<close>

definition GetToken :: "csrf \<Rightarrow> string" where
  "GetToken c = Token c"

definition ValidToken :: "xsrftoken \<Rightarrow> csrf \<Rightarrow> string \<Rightarrow> int \<Rightarrow> bool" where
  "ValidToken X c t now = xsrftoken_Valid X t (Secret c) (Id c) ''POST'' now"

text \<open>
  Lines 144 to 147: the host is cut at its first colon, and emptied when the pattern
  does not match it.
\<close>

definition cookie_domain :: "string \<Rightarrow> panic + string" where
  "cookie_domain host =
     (case index (Split host CHR '':'') 0 of
        Inl p \<Rightarrow> Inl p
      | Inr domain \<Rightarrow> Inr (if \<not> Match domainReg domain then [] else domain))"

text \<open>
  The cookie of lines 148 to 160; \<open>now\<close> is the reading of \<^verbatim>\<open>time.Now()\<close> on line 142.
\<close>

definition new_cookie :: "timepkg \<Rightarrow> Options \<Rightarrow> string \<Rightarrow> string \<Rightarrow> int \<Rightarrow> Cookie" where
  "new_cookie T opts token domain now =
     (let expire = AddDate T now 0 0 1 in
      \<lparr>Name = ''_csrf'',
       Value = token,
       Path = ''/'',
       Domain = domain,
       Expires = expire,
       RawExpires = Format T expire UnixDate,
       MaxAge = 0,
       Secure = optSecure opts,
       HttpOnly = False,
       Raw = ''_csrf='' @ token,
       Unparsed = [''token='' @ token]\<rparr>)"

text \<open>
  The else branch of line 139: a new token, and the cookie when the options ask for
  it. \<open>clk n\<close> is what the \<open>n\<close>-th call of \<^verbatim>\<open>time.Now()\<close> of this request returns:
  the first is made inside \<^verbatim>\<open>xsrftoken.Generate\<close>, the second on line 142.
\<close>

definition mint ::
  "xsrftoken \<Rightarrow> timepkg \<Rightarrow> Options \<Rightarrow> Request \<Rightarrow> (nat \<Rightarrow> int) \<Rightarrow> csrf \<Rightarrow> ResponseWriter
     \<Rightarrow> panic + csrf \<times> ResponseWriter" where
  "mint X T opts r clk x w =
     (let x = x\<lparr>Token := xsrftoken_Generate X (Secret x) (Id x) ''POST'' (clk 0)\<rparr> in
      if optSetCookie opts then
        (case cookie_domain (Host r) of
           Inl p \<Rightarrow> Inl p
         | Inr domain \<Rightarrow> Inr (x, SetCookie w (new_cookie T opts (Token x) domain (clk 1))))
      else Inr (x, w))"

text \<open>
  The handler that \<^verbatim>\<open>Generate(opts)\<close> returns. The context \<open>x\<close> is mapped into the martini
  context by pointer before it is filled in, so what the later handlers see is its final
  value: the first component of the result. The options are the struct behind the pointer
  that \<^verbatim>\<open>Generate\<close> was given, which the handler reads on every request.
\<close>

definition Generate ::
  "xsrftoken \<Rightarrow> timepkg \<Rightarrow> Options \<Rightarrow> Session \<Rightarrow> Request \<Rightarrow> (nat \<Rightarrow> int) \<Rightarrow> ResponseWriter
     \<Rightarrow> panic + csrf \<times> ResponseWriter" where
  "Generate X T opts s r clk w =
     (let x = \<lparr>Token = [], Id = [], Secret = optSecret opts\<rparr> in
      case s (optSessionKey opts) of
        IString uid \<Rightarrow>
          (let x = x\<lparr>Id := uid\<rparr> in
           if Method r = ''GET'' \<and> Get (Header r) ''X-API-Key'' = [] then
             (case (case Request_Cookie r ''_csrf'' of
                      Some ex \<Rightarrow>
                        if Value ex \<noteq> [] then Inr (x\<lparr>Token := Value ex\<rparr>, w)
                        else mint X T opts r clk x w
                    | None \<Rightarrow> mint X T opts r clk x w) of
                Inl p \<Rightarrow> Inl p
              | Inr (x, w) \<Rightarrow>
                  if optSetHeader opts then Inr (x, Add w ''X-CSRFToken'' (Token x))
                  else Inr (x, w))
           else Inr (x, w))
      | _ \<Rightarrow> Inr (x, w))"

text \<open>\<^verbatim>\<open>Validate\<close>; \<open>now\<close> is the clock reading of the one call of \<^verbatim>\<open>ValidToken\<close>.\<close>

definition Validate :: "xsrftoken \<Rightarrow> Request \<Rightarrow> ResponseWriter \<Rightarrow> csrf \<Rightarrow> int \<Rightarrow> ResponseWriter" where
  "Validate X r w x now =
     (let token = Get (Header r) ''X-CSRFToken'' in
      if token \<noteq> [] then
        (if \<not> ValidToken X x token now then http_Error w ''Invalid X-CSRFToken'' StatusBadRequest
         else w)
      else
        (let token = FormValue r ''_csrf'' in
         if token \<noteq> [] then
           (if \<not> ValidToken X x token now then http_Error w ''Invalid _csrf token'' StatusBadRequest
            else w)
         else http_Error w ''Bad Request'' StatusBadRequest))"

section \<open>A stand-in for package xsrftoken\<close>

text \<open>
  Modelled from the spec: package xsrftoken, the TokenCodec of section 4.1 of the
  specification, whose \<^verbatim>\<open>Generate\<close> and \<^verbatim>\<open>Valid\<close> csrf.go calls, is not among the
  sources. The specification says of it: a token is a string
  \<open>f(Secret, SubjectId, ActionLabel, timestamp)\<close> with an embedded expiry;
  \<open>derive(secret, subjectId, actionLabel, now)\<close> produces it; and
  \<open>verify(candidate, secret, subjectId, actionLabel, now)\<close> is true iff the candidate
  was produced by \<open>derive\<close> with the same secret, subject id and action label and its
  embedded timestamp is within a fixed validity window relative to \<open>now\<close>, and false
  on any malformed input.

  The specification fixes neither the function \<open>f\<close> nor the length of the window
  ("e.g. 24 hours"), so a codec is given by \<open>derive\<close>, by the reader \<open>embedded\<close> of the
  timestamp a candidate carries (\<open>None\<close> on a malformed candidate) and by the length
  \<open>expiry\<close> of the window; \<open>verify\<close> is then the specification's sentence. The facts
  about csrf.go below hold of every package; a codec serves to run them on examples.
\<close>

record TokenCodec =
  derive :: "string \<Rightarrow> string \<Rightarrow> string \<Rightarrow> int \<Rightarrow> string"
  embedded :: "string \<Rightarrow> int option"
  expiry :: int

text \<open>
  Modelled from the spec: the validity window of the absent package xsrftoken, "a fixed
  validity window (expiry duration is a hardwired constant)": at the time \<open>now\<close> less
  than the expiry duration has passed since the timestamp \<open>t\<close>.
\<close>

definition in_window :: "TokenCodec \<Rightarrow> int \<Rightarrow> int \<Rightarrow> bool" where
  "in_window K t now = (now - t < expiry K)"

text \<open>
  Modelled from the spec: \<open>verify\<close> of the absent package xsrftoken, in the words of
  section 4.1. A candidate that embeds no timestamp is malformed; otherwise it must be
  what \<open>derive\<close> produces from the same secret, subject id and action label at the
  embedded timestamp, and that timestamp must be within the window.
\<close>

definition verify :: "TokenCodec \<Rightarrow> string \<Rightarrow> string \<Rightarrow> string \<Rightarrow> string \<Rightarrow> int \<Rightarrow> bool" where
  "verify K candidate secret subjectId actionLabel now =
     (case embedded K candidate of
        None \<Rightarrow> False
      | Some t \<Rightarrow> candidate = derive K secret subjectId actionLabel t \<and> in_window K t now)"

text \<open>The codec in the place of package xsrftoken.\<close>

definition codec_pkg :: "TokenCodec \<Rightarrow> xsrftoken" where
  "codec_pkg K = \<lparr>xsrftoken_Generate = derive K, xsrftoken_Valid = verify K\<rparr>"

subsection \<open>A codec to compute with\<close>

text \<open>
  A codec in clear text, to run the examples with; it stands for no real package. Each
  of subject id, action label and secret is written after its length in unary, and the
  timestamp \<open>t \<ge> 0\<close> as \<open>t + 1\<close> letters.
\<close>

definition enc :: "string \<Rightarrow> string" where
  "enc x = replicate (length x) CHR ''1'' @ CHR ''0'' # x"

definition skip :: "string \<Rightarrow> string" where
  "skip tok = drop (Suc (2 * length (takeWhile (\<lambda>c. c = CHR ''1'') tok))) tok"

definition example_derive :: "string \<Rightarrow> string \<Rightarrow> string \<Rightarrow> int \<Rightarrow> string" where
  "example_derive s u a t = enc u @ enc a @ enc s @ replicate (Suc (nat t)) CHR ''t''"

definition example_embedded :: "string \<Rightarrow> int option" where
  "example_embedded tok =
     (let r = skip (skip (skip tok)) in
      if r \<noteq> [] \<and> list_all (\<lambda>c. c = CHR ''t'') r then Some (int (length r) - 1) else None)"

definition example_codec :: TokenCodec where
  "example_codec = \<lparr>derive = example_derive, embedded = example_embedded, expiry = 10\<rparr>"

section \<open>Example requests\<close>

text \<open>The options and the session of the example in the package comment of csrf.go.\<close>

definition example_opts :: Options where
  "example_opts =
     \<lparr>optSecret = ''token123'', optSessionKey = ''userId'', optSetHeader = True,
      optSetCookie = True, optSecure = True\<rparr>"

definition example_session :: Session where
  "example_session = (\<lambda>key. if key = ''userId'' then IString ''123456'' else INil)"

definition no_session :: Session where
  "no_session = (\<lambda>key. INil)"

definition int_session :: Session where
  "int_session = (\<lambda>key. if key = ''userId'' then IInt 123456 else INil)"

definition example_time :: timepkg where
  "example_time =
     \<lparr>AddDate = (\<lambda>t years months days. t + days * 86400000000000),
      Format = (\<lambda>t layout. layout)\<rparr>"

definition example_clock :: "nat \<Rightarrow> int" where
  "example_clock n = 5 + int n"

definition blank :: ResponseWriter where
  "blank = \<lparr>headers = [], cookies = [], errors = []\<rparr>"

definition request :: "string \<Rightarrow> (string \<times> string list) list \<Rightarrow> (string \<times> string) list
    \<Rightarrow> (string \<times> string list) list \<Rightarrow> Request" where
  "request m hs cs fs =
     \<lparr>Method = m, Host = ''example.com:8080'', Header = map_of hs,
      Cookies = map (\<lambda>(n, v). \<lparr>Name = n, Value = v, Path = [], Domain = [], Expires = 0,
        RawExpires = [], MaxAge = 0, Secure = False, HttpOnly = False, Raw = [],
        Unparsed = []\<rparr>) cs,
      Form = map_of fs\<rparr>"

definition example_token :: string where
  "example_token = example_derive ''token123'' ''123456'' ''POST'' 5"

section \<open>Facts about the imported packages\<close>

lemma Split_first: "\<exists>ps. Split s sep = takeWhile (\<lambda>c. c \<noteq> sep) s # ps"
  by (induction s) auto

text \<open>The first piece is the text before the first separator, and reading it never panics.\<close>

lemma index_Split: "index (Split s sep) 0 = Inr (takeWhile (\<lambda>c. c \<noteq> sep) s)"
proof -
  obtain ps where "Split s sep = takeWhile (\<lambda>c. c \<noteq> sep) s # ps"
    using Split_first by blast
  then show ?thesis by (simp add: index_def)
qed

text \<open>
  A match of \<open>domainReg\<close> would have to read a slash and then stand at the beginning of
  the text: from no position is there a match.
\<close>

lemma ends_domainReg: "ends domainReg s i = []"
  by (simp add: domainReg_def)

lemma Match_domainReg: "\<not> Match domainReg s"
  by (simp add: Match_def ends_domainReg list_ex_iff)

text \<open>
  The expression between the slashes does tell host names apart; it is the slashes that
  make \<open>domainReg\<close> reject everything.
\<close>

lemma hostname_accepts: "Match hostname ''a''"
  by (simp add: Match_def hostname_def shape_def label_def alnum_def alnumdash_def in_class_def)

lemma hostname_rejects: "\<not> Match hostname ''_''"
  by (simp add: Match_def hostname_def shape_def label_def alnum_def alnumdash_def in_class_def)

section \<open>Facts about Generate\<close>

lemma cookie_domain_eq:
  "cookie_domain host =
     Inr (if Match domainReg (takeWhile (\<lambda>c. c \<noteq> CHR '':'') host)
          then takeWhile (\<lambda>c. c \<noteq> CHR '':'') host else [])"
  by (simp add: cookie_domain_def index_Split)

lemma mint_eq:
  "mint X T opts r clk x w =
     Inr (x\<lparr>Token := xsrftoken_Generate X (Secret x) (Id x) ''POST'' (clk 0)\<rparr>,
          if optSetCookie opts
          then SetCookie w (new_cookie T opts (xsrftoken_Generate X (Secret x) (Id x) ''POST'' (clk 0))
                 (if Match domainReg (takeWhile (\<lambda>c. c \<noteq> CHR '':'') (Host r))
                  then takeWhile (\<lambda>c. c \<noteq> CHR '':'') (Host r) else []) (clk 1))
          else w)"
  by (simp add: mint_def cookie_domain_eq Let_def)

section \<open>Facts about the examples\<close>

lemma example_request_simps:
  "Method (request m hs cs fs) = m"
  "Host (request m hs cs fs) = ''example.com:8080''"
  "Header (request m hs cs fs) = map_of hs"
  "Form (request m hs cs fs) = map_of fs"
  "Request_Cookie (request m hs [] fs) n = None"
  "Request_Cookie (request m hs [(''_csrf'', v)] fs) ''_csrf'' =
     Some \<lparr>Name = ''_csrf'', Value = v, Path = [], Domain = [], Expires = 0,
        RawExpires = [], MaxAge = 0, Secure = False, HttpOnly = False, Raw = [],
        Unparsed = []\<rparr>"
  by (simp_all add: request_def Request_Cookie_def)

lemma takeWhile_ones:
  "takeWhile (\<lambda>c. c = CHR ''1'') (replicate n CHR ''1'' @ CHR ''0'' # r) = replicate n CHR ''1''"
  by (induction n) auto

lemma skip_enc: "skip (enc x @ r) = r"
  by (simp add: skip_def enc_def takeWhile_ones)

lemma example_embedded_derive: "0 \<le> t \<Longrightarrow> example_embedded (example_derive s u a t) = Some t"
  by (simp add: example_embedded_def example_derive_def skip_enc Let_def list_all_iff)

lemma example_derive_nonempty: "example_derive s u a t \<noteq> []"
  by (simp add: example_derive_def)

lemma example_token_embedded: "example_embedded example_token = Some 5"
  by (simp add: example_token_def example_embedded_derive)

lemma garbage_embedded: "example_embedded ''garbage'' = None"
  by (simp add: example_embedded_def skip_def)

lemma example_token_valid:
  "verify example_codec example_token ''token123'' ''123456'' ''POST'' 7"
  by (simp add: verify_def example_codec_def example_token_embedded in_window_def)
    (simp add: example_token_def)

lemma garbage_invalid: "\<not> verify example_codec ''garbage'' s u a now"
  by (simp add: verify_def example_codec_def garbage_embedded)

section \<open>Facts about Validate\<close>

text \<open>The three stages of \<open>Validate\<close>, one equation each.\<close>

lemma Validate_header:
  assumes "Get (Header r) ''X-CSRFToken'' \<noteq> []"
  shows "Validate X r w x now =
     (if ValidToken X x (Get (Header r) ''X-CSRFToken'') now then w
      else http_Error w ''Invalid X-CSRFToken'' StatusBadRequest)"
  using assms by (simp add: Validate_def Let_def)

lemma Validate_form:
  assumes "Get (Header r) ''X-CSRFToken'' = []" and "FormValue r ''_csrf'' \<noteq> []"
  shows "Validate X r w x now =
     (if ValidToken X x (FormValue r ''_csrf'') now then w
      else http_Error w ''Invalid _csrf token'' StatusBadRequest)"
  using assms by (simp add: Validate_def Let_def)

lemma Validate_none:
  assumes "Get (Header r) ''X-CSRFToken'' = []" and "FormValue r ''_csrf'' = []"
  shows "Validate X r w x now = http_Error w ''Bad Request'' StatusBadRequest"
  using assms by (simp add: Validate_def Let_def)

lemma http_Error_400:
  "http_Error w msg StatusBadRequest = w\<lparr>errors := errors w @ [(msg, 400)]\<rparr>"
  by (simp add: http_Error_def StatusBadRequest_def)

section \<open>Validate\<close>

text \<open>
  C2. \<open>Validate\<close> follows the state machine of the specification. If the X-CSRFToken
  request header is not empty, it alone is checked, and the form plays no part: a valid
  token leaves the response as it was, an invalid one is answered with status 400 and
  the message "Invalid X-CSRFToken". Otherwise, if the form field _csrf is not empty, it
  is checked in the same way, and a failure is answered with status 400 and the message
  "Invalid _csrf token". Otherwise the answer is status 400 with the message
  "Bad Request". Whenever \<open>Validate\<close> changes the response it has written it, so the
  chain of handlers stops; when it leaves the response as it was, the chain goes on.
\<close>

theorem Validate_state_machine:
  "(Get (Header r) ''X-CSRFToken'' \<noteq> [] \<and> ValidToken X x (Get (Header r) ''X-CSRFToken'') now \<longrightarrow>
      Validate X r w x now = w \<and> (\<forall>f. Validate X (r\<lparr>Form := f\<rparr>) w x now = w)) \<and>
   (Get (Header r) ''X-CSRFToken'' \<noteq> [] \<and> \<not> ValidToken X x (Get (Header r) ''X-CSRFToken'') now \<longrightarrow>
      Validate X r w x now = w\<lparr>errors := errors w @ [(''Invalid X-CSRFToken'', 400)]\<rparr> \<and>
      (\<forall>f. Validate X (r\<lparr>Form := f\<rparr>) w x now = Validate X r w x now)) \<and>
   (Get (Header r) ''X-CSRFToken'' = [] \<and> FormValue r ''_csrf'' \<noteq> [] \<and>
    ValidToken X x (FormValue r ''_csrf'') now \<longrightarrow> Validate X r w x now = w) \<and>
   (Get (Header r) ''X-CSRFToken'' = [] \<and> FormValue r ''_csrf'' \<noteq> [] \<and>
    \<not> ValidToken X x (FormValue r ''_csrf'') now \<longrightarrow>
      Validate X r w x now = w\<lparr>errors := errors w @ [(''Invalid _csrf token'', 400)]\<rparr>) \<and>
   (Get (Header r) ''X-CSRFToken'' = [] \<and> FormValue r ''_csrf'' = [] \<longrightarrow>
      Validate X r w x now = w\<lparr>errors := errors w @ [(''Bad Request'', 400)]\<rparr>) \<and>
   (errors (Validate X r w x now) \<noteq> errors w \<longrightarrow> Written (Validate X r w x now))"
proof (cases "Get (Header r) ''X-CSRFToken'' = []")
  case header: False
  have "Get (Header (r\<lparr>Form := f\<rparr>)) ''X-CSRFToken'' \<noteq> []" for f
    using header by simp
  then have "Validate X (r\<lparr>Form := f\<rparr>) w x now = Validate X r w x now" for f
    using header by (simp add: Validate_header)
  with header show ?thesis
    by (simp add: Validate_header http_Error_400 Written_def)
next
  case no_header: True
  show ?thesis
  proof (cases "FormValue r ''_csrf'' = []")
    case True
    with no_header show ?thesis
      by (simp add: Validate_none http_Error_400 Written_def)
  next
    case False
    with no_header show ?thesis
      by (simp add: Validate_form http_Error_400 Written_def)
  qed
qed

theorem Validate_state_machine_witness:
  "Validate (codec_pkg example_codec) (request ''POST'' [(''X-CSRFToken'', [example_token])] [] [])
     blank \<lparr>Token = [], Id = ''123456'', Secret = ''token123''\<rparr> 7 = blank \<and>
   Validate (codec_pkg example_codec)
     ((request ''POST'' [(''X-CSRFToken'', [example_token])] [] [])
        \<lparr>Form := map_of [(''_csrf'', [''garbage''])]\<rparr>)
     blank \<lparr>Token = [], Id = ''123456'', Secret = ''token123''\<rparr> 7 = blank \<and>
   Validate (codec_pkg example_codec) (request ''POST'' [(''X-CSRFToken'', [''garbage''])] [] [])
     blank \<lparr>Token = [], Id = ''123456'', Secret = ''token123''\<rparr> 7
     = \<lparr>headers = [], cookies = [], errors = [(''Invalid X-CSRFToken'', 400)]\<rparr> \<and>
   Validate (codec_pkg example_codec) (request ''POST'' [] [] [(''_csrf'', [example_token])])
     blank \<lparr>Token = [], Id = ''123456'', Secret = ''token123''\<rparr> 7 = blank \<and>
   Validate (codec_pkg example_codec) (request ''POST'' [] [] [(''_csrf'', [''garbage''])])
     blank \<lparr>Token = [], Id = ''123456'', Secret = ''token123''\<rparr> 7
     = \<lparr>headers = [], cookies = [], errors = [(''Invalid _csrf token'', 400)]\<rparr> \<and>
   Validate (codec_pkg example_codec) (request ''POST'' [] [] [])
     blank \<lparr>Token = [], Id = ''123456'', Secret = ''token123''\<rparr> 7
     = \<lparr>headers = [], cookies = [], errors = [(''Bad Request'', 400)]\<rparr> \<and>
   Written (Validate (codec_pkg example_codec) (request ''POST'' [] [] []) blank \<lparr>Token = [], Id = ''123456'', Secret = ''token123''\<rparr> 7)"
  using
    Validate_state_machine [of "request ''POST'' [(''X-CSRFToken'', [example_token])] [] []"
      "codec_pkg example_codec" "\<lparr>Token = [], Id = ''123456'', Secret = ''token123''\<rparr>" 7 blank]
    Validate_state_machine [of "request ''POST'' [(''X-CSRFToken'', [''garbage''])] [] []"
      "codec_pkg example_codec" "\<lparr>Token = [], Id = ''123456'', Secret = ''token123''\<rparr>" 7 blank]
    Validate_state_machine [of "request ''POST'' [] [] [(''_csrf'', [example_token])]"
      "codec_pkg example_codec" "\<lparr>Token = [], Id = ''123456'', Secret = ''token123''\<rparr>" 7 blank]
    Validate_state_machine [of "request ''POST'' [] [] [(''_csrf'', [''garbage''])]"
      "codec_pkg example_codec" "\<lparr>Token = [], Id = ''123456'', Secret = ''token123''\<rparr>" 7 blank]
    Validate_state_machine [of "request ''POST'' [] [] []" "codec_pkg example_codec" "\<lparr>Token = [], Id = ''123456'', Secret = ''token123''\<rparr>" 7 blank]
    example_token_valid garbage_invalid [of "''token123''" "''123456''" "''POST''" 7]
    example_derive_nonempty [of "''token123''" "''123456''" "''POST''" 5]
  by (simp add: example_request_simps Get_def FormValue_def ValidToken_def codec_pkg_def
      blank_def example_token_def Written_def)

section \<open>Generate\<close>

text \<open>
  C4, as the code has it. On a GET request that carries no X-API-Key value, when the
  session holds a string subject id and the incoming _csrf cookie has a non-empty value,
  \<open>Generate\<close> copies that value into the Token of the context. The result mentions
  neither the token package nor the clock: the value is not validated and no token is
  minted; no cookie is written.
\<close>

theorem cookie_reuse:
  assumes "Method r = ''GET''" and "Get (Header r) ''X-API-Key'' = []"
    and "s (optSessionKey opts) = IString uid"
    and "Request_Cookie r ''_csrf'' = Some ex" and "Value ex \<noteq> []"
  shows "Generate X T opts s r clk w =
     Inr (\<lparr>Token = Value ex, Id = uid, Secret = optSecret opts\<rparr>,
          if optSetHeader opts then Add w ''X-CSRFToken'' (Value ex) else w)"
  using assms by (simp add: Generate_def Let_def)

theorem cookie_reuse_witness:
  "Method (request ''GET'' [] [(''_csrf'', ''abc'')] []) = ''GET'' \<and>
   Get (Header (request ''GET'' [] [(''_csrf'', ''abc'')] [])) ''X-API-Key'' = [] \<and>
   example_session (optSessionKey example_opts) = IString ''123456'' \<and>
   map_option Value (Request_Cookie (request ''GET'' [] [(''_csrf'', ''abc'')] []) ''_csrf'')
     = Some ''abc'' \<and>
   Generate (codec_pkg example_codec) example_time example_opts example_session
     (request ''GET'' [] [(''_csrf'', ''abc'')] []) example_clock blank
     = Inr (\<lparr>Token = ''abc'', Id = ''123456'', Secret = ''token123''\<rparr>,
            \<lparr>headers = [(''X-CSRFToken'', ''abc'')], cookies = [], errors = []\<rparr>)"
  using cookie_reuse [of "request ''GET'' [] [(''_csrf'', ''abc'')] []" example_session
      example_opts "''123456''" _ "codec_pkg example_codec" example_time example_clock blank]
  by (simp add: example_request_simps Get_def example_opts_def example_session_def Add_def
      blank_def)

text \<open>
  C4, as the claim has it, fails: a GET request whose _csrf cookie is "abc" leaves the
  Token empty when it carries an X-API-Key value, and when the session holds no subject
  id.
\<close>

theorem cookie_reuse_counterexample:
  "Method (request ''GET'' [(''X-API-Key'', [''k''])] [(''_csrf'', ''abc'')] []) = ''GET'' \<and>
   map_option Value
     (Request_Cookie (request ''GET'' [(''X-API-Key'', [''k''])] [(''_csrf'', ''abc'')] []) ''_csrf'')
     = Some ''abc'' \<and>
   Generate (codec_pkg example_codec) example_time example_opts example_session
     (request ''GET'' [(''X-API-Key'', [''k''])] [(''_csrf'', ''abc'')] []) example_clock blank
     = Inr (\<lparr>Token = [], Id = ''123456'', Secret = ''token123''\<rparr>, blank) \<and>
   Method (request ''GET'' [] [(''_csrf'', ''abc'')] []) = ''GET'' \<and>
   map_option Value (Request_Cookie (request ''GET'' [] [(''_csrf'', ''abc'')] []) ''_csrf'')
     = Some ''abc'' \<and>
   Generate (codec_pkg example_codec) example_time example_opts no_session
     (request ''GET'' [] [(''_csrf'', ''abc'')] []) example_clock blank
     = Inr (\<lparr>Token = [], Id = [], Secret = ''token123''\<rparr>, blank)"
  by (simp add: example_request_simps Generate_def Get_def example_opts_def
      example_session_def no_session_def Let_def)

text \<open>
  C5, as the code has it. Let setCookie be configured, on a GET request that carries no
  X-API-Key value, with a string subject id in the session. When issuance mints a token
  (the request has no non-empty _csrf cookie), \<open>Generate\<close> writes exactly one cookie:
  its name is _csrf, its value the token, its path "/", its expiry one day after the
  clock reading of line 142, its Secure flag the configured one and HttpOnly false. When
  the token is taken over from a non-empty _csrf cookie of the request, \<open>Generate\<close> writes
  no cookie.
\<close>

theorem cookie_written_only_on_mint:
  assumes "optSetCookie opts" and "s (optSessionKey opts) = IString uid"
    and "Method r = ''GET''" and "Get (Header r) ''X-API-Key'' = []"
  shows
    "((\<forall>ex. Request_Cookie r ''_csrf'' = Some ex \<longrightarrow> Value ex = []) \<longrightarrow>
        (\<exists>x w' c. Generate X T opts s r clk w = Inr (x, w') \<and>
           Token x = xsrftoken_Generate X (optSecret opts) uid ''POST'' (clk 0) \<and>
           cookies w' = cookies w @ [c] \<and>
           Name c = ''_csrf'' \<and> Value c = Token x \<and> Path c = ''/'' \<and>
           Expires c = AddDate T (clk 1) 0 0 1 \<and> Secure c = optSecure opts \<and>
           HttpOnly c = False)) \<and>
     (\<forall>ex. Request_Cookie r ''_csrf'' = Some ex \<and> Value ex \<noteq> [] \<longrightarrow>
        (\<exists>x w'. Generate X T opts s r clk w = Inr (x, w') \<and> Token x = Value ex \<and>
           cookies w' = cookies w))"
proof (intro conjI impI allI)
  assume "\<forall>ex. Request_Cookie r ''_csrf'' = Some ex \<longrightarrow> Value ex = []"
  with assms show "\<exists>x w' c. Generate X T opts s r clk w = Inr (x, w') \<and>
      Token x = xsrftoken_Generate X (optSecret opts) uid ''POST'' (clk 0) \<and>
      cookies w' = cookies w @ [c] \<and>
      Name c = ''_csrf'' \<and> Value c = Token x \<and> Path c = ''/'' \<and>
      Expires c = AddDate T (clk 1) 0 0 1 \<and> Secure c = optSecure opts \<and> HttpOnly c = False"
    by (cases "Request_Cookie r ''_csrf''")
      (simp_all add: Generate_def mint_eq SetCookie_def Add_def new_cookie_def Let_def)
next
  fix ex
  assume "Request_Cookie r ''_csrf'' = Some ex \<and> Value ex \<noteq> []"
  with assms show "\<exists>x w'. Generate X T opts s r clk w = Inr (x, w') \<and> Token x = Value ex \<and>
      cookies w' = cookies w"
    by (simp add: Generate_def Add_def Let_def)
qed

theorem cookie_written_only_on_mint_witness:
  "optSetCookie example_opts \<and>
   example_session (optSessionKey example_opts) = IString ''123456'' \<and>
   Method (request ''GET'' [] [] []) = ''GET'' \<and>
   Get (Header (request ''GET'' [] [] [])) ''X-API-Key'' = [] \<and>
   Request_Cookie (request ''GET'' [] [] []) ''_csrf'' = None \<and>
   (\<exists>x w' c. Generate (codec_pkg example_codec) example_time example_opts example_session
        (request ''GET'' [] [] []) example_clock blank = Inr (x, w') \<and>
      Token x = example_token \<and> cookies w' = [c] \<and>
      Name c = ''_csrf'' \<and> Value c = example_token \<and> Path c = ''/'' \<and>
      Expires c = 86400000000006 \<and> Secure c = True \<and> HttpOnly c = False) \<and>
   Method (request ''GET'' [] [(''_csrf'', ''xyz'')] []) = ''GET'' \<and>
   Get (Header (request ''GET'' [] [(''_csrf'', ''xyz'')] [])) ''X-API-Key'' = [] \<and>
   map_option Value (Request_Cookie (request ''GET'' [] [(''_csrf'', ''xyz'')] []) ''_csrf'')
     = Some ''xyz'' \<and>
   (\<exists>x w'. Generate (codec_pkg example_codec) example_time example_opts example_session
        (request ''GET'' [] [(''_csrf'', ''xyz'')] []) example_clock blank = Inr (x, w') \<and>
      Token x = ''xyz'' \<and> cookies w' = [])"
  using
    cookie_written_only_on_mint [of example_opts example_session "''123456''"
      "request ''GET'' [] [] []" "codec_pkg example_codec" example_time example_clock blank]
    cookie_written_only_on_mint [of example_opts example_session "''123456''"
      "request ''GET'' [] [(''_csrf'', ''xyz'')] []" "codec_pkg example_codec" example_time
      example_clock blank]
  by (simp add: example_request_simps Get_def example_opts_def example_session_def
      blank_def codec_pkg_def example_codec_def example_token_def example_time_def
      example_clock_def) metis

text \<open>
  C5, as the claim has it, fails: with setCookie configured, a GET request whose _csrf
  cookie is "xyz" puts the token "xyz" into the context and into the X-CSRFToken
  response header, and no cookie is written.
\<close>

theorem cookie_on_reuse_counterexample:
  "optSetCookie example_opts \<and>
   Generate (codec_pkg example_codec) example_time example_opts example_session
     (request ''GET'' [] [(''_csrf'', ''xyz'')] []) example_clock blank
     = Inr (\<lparr>Token = ''xyz'', Id = ''123456'', Secret = ''token123''\<rparr>,
            \<lparr>headers = [(''X-CSRFToken'', ''xyz'')], cookies = [], errors = []\<rparr>)"
  by (simp add: example_request_simps Generate_def Get_def Add_def example_opts_def
      example_session_def blank_def Let_def)

text \<open>
  C6. On a GET request that carries a non-empty X-API-Key header, \<open>Generate\<close> leaves the
  response as it was, whatever the options say: no cookie and no header is written. The
  Token of the context stays empty.
\<close>

theorem api_key_suppresses_issuance:
  assumes "Method r = ''GET''" and "Get (Header r) ''X-API-Key'' \<noteq> []"
  shows "\<exists>x. Generate X T opts s r clk w = Inr (x, w) \<and> GetToken x = []"
  using assms by (simp add: Generate_def GetToken_def Let_def split: iface.splits)

theorem api_key_suppresses_issuance_witness:
  "Method (request ''GET'' [(''X-API-Key'', [''k''])] [] []) = ''GET'' \<and>
   Get (Header (request ''GET'' [(''X-API-Key'', [''k''])] [] [])) ''X-API-Key'' = ''k'' \<and>
   optSetCookie example_opts \<and> optSetHeader example_opts \<and>
   (\<exists>x. Generate (codec_pkg example_codec) example_time example_opts example_session
      (request ''GET'' [(''X-API-Key'', [''k''])] [] []) example_clock blank = Inr (x, blank) \<and>
      GetToken x = [])"
  using api_key_suppresses_issuance [of "request ''GET'' [(''X-API-Key'', [''k''])] [] []"
      "codec_pkg example_codec" example_time example_opts example_session example_clock blank]
  by (simp add: example_request_simps Get_def example_opts_def)

text \<open>
  C7. On every request \<open>Generate\<close> returns (it does not panic) with a context that holds
  the configured secret. When the session value at the session key is absent or is not
  a string, the subject id and the token of the context are empty, \<open>GetToken\<close> returns the
  empty string, and the response is as it was: no cookie and no header is written.
\<close>

theorem context_always_mapped:
  "(\<exists>x w'. Generate X T opts s r clk w = Inr (x, w') \<and> Secret x = optSecret opts) \<and>
   ((\<forall>uid. s (optSessionKey opts) \<noteq> IString uid) \<longrightarrow>
      (\<exists>x. Generate X T opts s r clk w = Inr (x, w) \<and> Secret x = optSecret opts \<and>
         Id x = [] \<and> Token x = [] \<and> GetToken x = []))"
proof (cases "s (optSessionKey opts)")
  case (IString uid)
  then show ?thesis
    by (simp add: Generate_def mint_eq Let_def split: option.splits)
qed (simp_all add: Generate_def GetToken_def)

theorem context_always_mapped_witness:
  "(\<exists>x w'. Generate (codec_pkg example_codec) example_time example_opts no_session
       (request ''GET'' [] [] []) example_clock blank = Inr (x, w') \<and> Secret x = ''token123'') \<and>
   (\<forall>uid. no_session (optSessionKey example_opts) \<noteq> IString uid) \<and>
   (\<exists>x. Generate (codec_pkg example_codec) example_time example_opts no_session
       (request ''GET'' [] [] []) example_clock blank = Inr (x, blank) \<and>
       Secret x = ''token123'' \<and> Id x = [] \<and> Token x = [] \<and> GetToken x = []) \<and>
   (\<forall>uid. int_session (optSessionKey example_opts) \<noteq> IString uid) \<and>
   (\<exists>x. Generate (codec_pkg example_codec) example_time example_opts int_session
       (request ''GET'' [] [] []) example_clock blank = Inr (x, blank) \<and>
       Secret x = ''token123'' \<and> Id x = [] \<and> Token x = [] \<and> GetToken x = [])"
  using context_always_mapped [of "codec_pkg example_codec" example_time example_opts no_session
      "request ''GET'' [] [] []" example_clock blank]
    context_always_mapped [of "codec_pkg example_codec" example_time example_opts int_session
      "request ''GET'' [] [] []" example_clock blank]
  by (simp add: example_opts_def no_session_def int_session_def)

text \<open>
  C9. No host passes the check against \<open>domainReg\<close>: the pattern keeps its two slashes as
  literal characters around the anchored expression, so nothing matches. Hence every
  cookie that \<open>Generate\<close> writes has an empty Domain.
\<close>

theorem domain_check_never_passes:
  "\<not> Match domainReg host \<and>
   (\<exists>x w' cs. Generate X T opts s r clk w = Inr (x, w') \<and> cookies w' = cookies w @ cs \<and>
      (\<forall>c \<in> set cs. Domain c = []))"
  by (simp add: Match_domainReg Generate_def mint_eq SetCookie_def Add_def new_cookie_def
      Let_def split: iface.splits option.splits)

theorem domain_check_never_passes_witness:
  "\<not> Match domainReg ''example.com'' \<and>
   (\<exists>x w' c. Generate (codec_pkg example_codec) example_time example_opts example_session
        (request ''GET'' [] [] []) example_clock blank = Inr (x, w') \<and>
      cookies w' = cookies blank @ [c] \<and> c \<in> set [c] \<and> Domain c = [])"
  using domain_check_never_passes [of "''example.com''" "codec_pkg example_codec" example_time
      example_opts example_session "request ''GET'' [] [] []" example_clock blank]
  by (simp add: Generate_def mint_eq example_request_simps Get_def example_opts_def
      example_session_def blank_def SetCookie_def Add_def new_cookie_def Let_def Match_domainReg)

text \<open>
  C10. On a request whose method is not GET, when the session holds a string subject
  id, \<open>Generate\<close> fills in the Secret and the Id of the context, leaves its Token empty
  (\<open>GetToken\<close> returns the empty string) and leaves the response as it was: no cookie and
  no header. \<open>ValidToken\<close> of that context checks a candidate against the configured
  secret, the subject id of the session and "POST", so validation on the request works.
\<close>

theorem non_get_leaves_token_empty:
  assumes "Method r \<noteq> ''GET''" and "s (optSessionKey opts) = IString uid"
  shows "\<exists>x. Generate X T opts s r clk w = Inr (x, w) \<and> Secret x = optSecret opts \<and>
     Id x = uid \<and> GetToken x = [] \<and>
     (\<forall>t now. ValidToken X x t now = xsrftoken_Valid X t (optSecret opts) uid ''POST'' now)"
  using assms by (simp add: Generate_def GetToken_def ValidToken_def Let_def)

theorem non_get_leaves_token_empty_witness:
  "Method (request ''POST'' [] [] []) \<noteq> ''GET'' \<and>
   example_session (optSessionKey example_opts) = IString ''123456'' \<and>
   (\<exists>x. Generate (codec_pkg example_codec) example_time example_opts example_session
       (request ''POST'' [] [] []) example_clock blank = Inr (x, blank) \<and>
       Secret x = ''token123'' \<and> Id x = ''123456'' \<and> GetToken x = [] \<and>
       ValidToken (codec_pkg example_codec) x example_token 7)"
  using non_get_leaves_token_empty [of "request ''POST'' [] [] []" example_session example_opts
      "''123456''" "codec_pkg example_codec" example_time example_clock blank] example_token_valid
  by (auto simp add: example_request_simps example_opts_def example_session_def codec_pkg_def)

end
